theory Spec2Isabelle
  imports Main "HOL-Library.Word" "HOL-Library.AList"
begin

section \<open>Go library functions used by the cluster provider\<close>

subsection \<open>strings\<close>

text \<open>
  Go strings are byte sequences; \<open>string\<close> is a list of 8-bit characters, so the
  two agree. \<open>strings.Split s ","\<close> cuts at every comma and always returns at least
  one piece (\<open>Split "" ","\<close> is \<open>[""]\<close>).
\<close>

fun Split :: "string \<Rightarrow> char \<Rightarrow> string list" where
  "Split [] sep = [[]]"
| "Split (c # cs) sep =
     (if c = sep then [] # Split cs sep
      else (case Split cs sep of [] \<Rightarrow> [[c]] | p # ps \<Rightarrow> (c # p) # ps))"

text \<open>
  \<open>strings.TrimLeft s cutset\<close> and \<open>strings.TrimRight s cutset\<close> remove every leading
  (trailing) character that occurs in the cutset. The cutsets of this program are
  ASCII (\<open>"v"\<close> and \<open>"Gi"\<close>), where Go works byte by byte.
\<close>

definition TrimLeft :: "string \<Rightarrow> string \<Rightarrow> string" where
  "TrimLeft s cutset = dropWhile (\<lambda>c. c \<in> set cutset) s"

definition TrimRight :: "string \<Rightarrow> string \<Rightarrow> string" where
  "TrimRight s cutset = rev (dropWhile (\<lambda>c. c \<in> set cutset) (rev s))"

text \<open>
  \<open>strings.TrimSpace\<close> removes leading and trailing Unicode white space. On the UTF-8
  bytes of a Go string the white space runes are the six ASCII ones (tab, line feed,
  vertical tab, form feed, carriage return, space), U+0085 and U+00A0 (two bytes, lead
  \<open>0xC2\<close>), U+1680 (\<open>E1 9A 80\<close>), U+2000 to U+200A, U+2028, U+2029, U+202F
  (\<open>E2 80 xx\<close>), U+205F (\<open>E2 81 9F\<close>) and U+3000 (\<open>E3 80 80\<close>). Every one of them
  starts with a byte that begins a rune, so cutting them from either end byte-wise is
  what the decoder of Go does.
\<close>

definition asciiSpace :: "char \<Rightarrow> bool" where
  "asciiSpace c = (c \<in> set [CHR 0x09, CHR 0x0A, CHR 0x0B, CHR 0x0C, CHR 0x0D, CHR 0x20])"

definition e280Space :: "char \<Rightarrow> bool" where
  "e280Space c =
     (c \<in> set [CHR 0x80, CHR 0x81, CHR 0x82, CHR 0x83, CHR 0x84, CHR 0x85, CHR 0x86,
               CHR 0x87, CHR 0x88, CHR 0x89, CHR 0x8A, CHR 0xA8, CHR 0xA9, CHR 0xAF])"

text \<open>The length in bytes of the white space rune at the head of the string, 0 if none.\<close>

fun spacePrefix :: "string \<Rightarrow> nat" where
  "spacePrefix [] = 0"
| "spacePrefix (a # s) =
     (if asciiSpace a then 1
      else (case s of
          [] \<Rightarrow> 0
        | b # t \<Rightarrow>
           if a = CHR 0xC2 \<and> (b = CHR 0x85 \<or> b = CHR 0xA0) then 2
           else (case t of
               [] \<Rightarrow> 0
             | c # _ \<Rightarrow>
                if a = CHR 0xE1 \<and> b = CHR 0x9A \<and> c = CHR 0x80 then 3
                else if a = CHR 0xE2 \<and> b = CHR 0x80 \<and> e280Space c then 3
                else if a = CHR 0xE2 \<and> b = CHR 0x81 \<and> c = CHR 0x9F then 3
                else if a = CHR 0xE3 \<and> b = CHR 0x80 \<and> c = CHR 0x80 then 3
                else 0)))"

text \<open>The same at the end of the string; the argument is the reversed string.\<close>

fun spaceSuffix :: "string \<Rightarrow> nat" where
  "spaceSuffix [] = 0"
| "spaceSuffix (c # s) =
     (if asciiSpace c then 1
      else (case s of
          [] \<Rightarrow> 0
        | b # t \<Rightarrow>
           if b = CHR 0xC2 \<and> (c = CHR 0x85 \<or> c = CHR 0xA0) then 2
           else (case t of
               [] \<Rightarrow> 0
             | a # _ \<Rightarrow>
                if a = CHR 0xE1 \<and> b = CHR 0x9A \<and> c = CHR 0x80 then 3
                else if a = CHR 0xE2 \<and> b = CHR 0x80 \<and> e280Space c then 3
                else if a = CHR 0xE2 \<and> b = CHR 0x81 \<and> c = CHR 0x9F then 3
                else if a = CHR 0xE3 \<and> b = CHR 0x80 \<and> c = CHR 0x80 then 3
                else 0)))"

function trimLeftSpace :: "string \<Rightarrow> string" where
  "trimLeftSpace s =
     (if spacePrefix s = 0 then s else trimLeftSpace (drop (spacePrefix s) s))"
  by pat_completeness auto
termination
proof (relation "measure length")
  fix s :: string
  assume "spacePrefix s \<noteq> 0"
  then have "s \<noteq> []" by (cases s) auto
  then show "(drop (spacePrefix s) s, s) \<in> measure length"
    using \<open>spacePrefix s \<noteq> 0\<close> by simp
qed simp

function trimRightSpaceRev :: "string \<Rightarrow> string" where
  "trimRightSpaceRev s =
     (if spaceSuffix s = 0 then s else trimRightSpaceRev (drop (spaceSuffix s) s))"
  by pat_completeness auto
termination
proof (relation "measure length")
  fix s :: string
  assume "spaceSuffix s \<noteq> 0"
  then have "s \<noteq> []" by (cases s) auto
  then show "(drop (spaceSuffix s) s, s) \<in> measure length"
    using \<open>spaceSuffix s \<noteq> 0\<close> by simp
qed simp

declare trimLeftSpace.simps [simp del]
declare trimRightSpaceRev.simps [simp del]

definition TrimSpace :: "string \<Rightarrow> string" where
  "TrimSpace s = rev (trimRightSpaceRev (rev (trimLeftSpace s)))"


subsection \<open>strconv and fmt\<close>

text \<open>
  \<open>fmt.Sprintf "%d"\<close> of an unsigned value and \<open>strconv.Itoa\<close> of a signed one print
  decimal digits, most significant first, with a minus sign for a negative \<open>int\<close>.
\<close>

definition digit :: "nat \<Rightarrow> char" where
  "digit d = ''0123456789'' ! d"

function showNat :: "nat \<Rightarrow> string" where
  "showNat n = (if n < 10 then [digit n] else showNat (n div 10) @ [digit (n mod 10)])"
  by pat_completeness auto
termination
  by (relation "measure id") auto

declare showNat.simps [simp del]

definition Itoa :: "int \<Rightarrow> string" where
  "Itoa i = (if i < 0 then CHR ''-'' # showNat (nat (- i)) else showNat (nat i))"

text \<open>Reading a decimal string back, the inverse the round-trip property speaks of.\<close>

definition digitVal :: "char \<Rightarrow> nat" where
  "digitVal c = of_char c - 48"

definition readNat :: "string \<Rightarrow> nat" where
  "readNat s = foldl (\<lambda>a c. 10 * a + digitVal c) 0 s"

subsection \<open>errors\<close>

text \<open>
  A Go \<open>error\<close> value. The remote store answers with status errors that carry a reason;
  \<open>errors.IsAlreadyExists\<close> tests that reason. Every other error is a message.
\<close>

datatype StatusReason =
    StatusReasonAlreadyExists
  | StatusReasonNotFound
  | StatusReasonOther string

datatype error =
    StatusError StatusReason string
  | errorString string

fun IsAlreadyExists :: "error \<Rightarrow> bool" where
  "IsAlreadyExists (StatusError StatusReasonAlreadyExists _) = True"
| "IsAlreadyExists _ = False"

subsection \<open>Unstructured documents\<close>

text \<open>
  The content of an \<open>unstructured.Unstructured\<close>: what \<open>interface{}\<close> holds in a JSON
  document. Go tells a nil slice from an empty one and a nil map from an empty one, so
  both have a constructor of their own. A map is an association list read with
  \<open>map_of\<close>. \<open>JInt\<close> holds an \<open>int64\<close>; a \<open>float64\<close> is kept as mantissa and exponent
  and is never read by this program.
\<close>

datatype jv =
    JNil
  | JBool bool
  | JInt int
  | JFloat int int
  | JStr string
  | JNilSlice
  | JSlice "jv list"
  | JNilMap
  | JMap "(string \<times> jv) list"

text \<open>
  The accessors of \<open>k8s.io/apimachinery/.../unstructured\<close>, which return the value, whether
  it was found and an error. The error text is never looked at by the callers below.
\<close>

fun NestedFieldNoCopy :: "jv \<Rightarrow> string list \<Rightarrow> jv \<times> bool \<times> error option" where
  "NestedFieldNoCopy val [] = (val, True, None)"
| "NestedFieldNoCopy val (field # fields) =
     (case val of
        JNil \<Rightarrow> (JNil, False, None)
      | JNilMap \<Rightarrow> (JNil, False, None)
      | JMap m \<Rightarrow>
         (case map_of m field of
            None \<Rightarrow> (JNil, False, None)
          | Some v \<Rightarrow> NestedFieldNoCopy v fields)
      | _ \<Rightarrow> (JNil, False, Some (errorString ''accessor error'')))"

definition NestedInt64 :: "jv \<Rightarrow> string list \<Rightarrow> int \<times> bool \<times> error option" where
  "NestedInt64 obj fields =
     (case NestedFieldNoCopy obj fields of
        (val, found, err) \<Rightarrow>
          if \<not> found \<or> err \<noteq> None then (0, found, err)
          else (case val of
                  JInt i \<Rightarrow> (i, True, None)
                | _ \<Rightarrow> (0, False, Some (errorString ''accessor error''))))"

definition NestedString :: "jv \<Rightarrow> string list \<Rightarrow> string \<times> bool \<times> error option" where
  "NestedString obj fields =
     (case NestedFieldNoCopy obj fields of
        (val, found, err) \<Rightarrow>
          if \<not> found \<or> err \<noteq> None then ([], found, err)
          else (case val of
                  JStr s \<Rightarrow> (s, True, None)
                | _ \<Rightarrow> ([], False, Some (errorString ''accessor error''))))"

text \<open>The slice and map accessors return a deep copy; in a pure model that is the value.\<close>

definition NestedSlice :: "jv \<Rightarrow> string list \<Rightarrow> jv \<times> bool \<times> error option" where
  "NestedSlice obj fields =
     (case NestedFieldNoCopy obj fields of
        (val, found, err) \<Rightarrow>
          if \<not> found \<or> err \<noteq> None then (JNilSlice, found, err)
          else (case val of
                  JSlice xs \<Rightarrow> (JSlice xs, True, None)
                | JNilSlice \<Rightarrow> (JNilSlice, True, None)
                | _ \<Rightarrow> (JNilSlice, False, Some (errorString ''accessor error''))))"

definition NestedMap :: "jv \<Rightarrow> string list \<Rightarrow> jv \<times> bool \<times> error option" where
  "NestedMap obj fields =
     (case NestedFieldNoCopy obj fields of
        (val, found, err) \<Rightarrow>
          if \<not> found \<or> err \<noteq> None then (JNilMap, found, err)
          else (case val of
                  JMap m \<Rightarrow> (JMap m, True, None)
                | JNilMap \<Rightarrow> (JNilMap, True, None)
                | _ \<Rightarrow> (JNilMap, False, Some (errorString ''accessor error''))))"

text \<open>
  \<open>SetNestedField obj value "spec"\<close> with a single field name stores a copy of the value
  under that key of the top-level map and returns no error. Go panics when that map
  is nil; the model hands the panic back as an error. The caller below only gets here
  after it has found \<open>spec\<close> in the map.
\<close>

definition SetNestedField1 :: "jv \<Rightarrow> jv \<Rightarrow> string \<Rightarrow> jv \<times> error option" where
  "SetNestedField1 obj val field =
     (case obj of
        JMap m \<Rightarrow> (JMap (AList.update field val m), None)
      | _ \<Rightarrow> (obj, Some (errorString ''assignment to entry in nil map'')))"

subsection \<open>encoding/json\<close>

text \<open>
  The program passes environment variables through \<open>json.Marshal\<close> and \<open>json.Unmarshal\<close>
  in both directions. The four conversions it uses are parameters of the model, one
  record of functions; \<open>'e\<close> is \<open>corev1.EnvVar\<close>. A Go slice of them is
  \<open>'e list option\<close>, \<open>None\<close> for nil.
\<close>

record 'e json =
  MarshalEnv :: "'e list option \<Rightarrow> error + string"
  UnmarshalAny :: "string \<Rightarrow> error + jv"
  MarshalAny :: "jv \<Rightarrow> error + string"
  UnmarshalEnv :: "string \<Rightarrow> error + 'e list option"

section \<open>The cluster resource\<close>

text \<open>
  The fields of \<open>kstoneapiv1.EtcdCluster\<close> that the provider reads. The counts are Go
  \<open>uint\<close>, 64 bits wide: \<open>unat\<close> is what \<open>%d\<close> prints, \<open>sint\<close> is what the conversions
  \<open>int(...)\<close> and \<open>int64(...)\<close> yield. Labels and annotations are association lists read
  with \<open>map_of\<close>; the status type is a parameter.
\<close>

record 'e EtcdClusterSpec =
  Size :: "64 word"
  Version :: string
  DiskSize :: "64 word"
  TotalCpu :: "64 word"
  TotalMem :: "64 word"
  Env :: "'e list option"

record ('e, 'st) EtcdCluster =
  Name :: string
  Namespace :: string
  Labels :: "(string \<times> string) list"
  Annotations :: "(string \<times> string) list"
  Spec :: "'e EtcdClusterSpec"
  Status_field :: 'st

text \<open>Reading a Go map of strings: the empty string when the key is missing.\<close>

definition mapIndex :: "(string \<times> string) list \<Rightarrow> string \<Rightarrow> string" where
  "mapIndex m k = (case map_of m k of None \<Rightarrow> [] | Some v \<Rightarrow> v)"

section \<open>generateEtcdSpec\<close>

text \<open>The loop over the pieces of the annotation \<open>extraServerCertSANs\<close>.\<close>

fun certSANLoop :: "string list \<Rightarrow> jv list \<Rightarrow> jv list" where
  "certSANLoop [] extraServerCertSANList = extraServerCertSANList"
| "certSANLoop (certSAN # rest) extraServerCertSANList =
     (let temp = TrimSpace certSAN in
      if temp = [] then certSANLoop rest extraServerCertSANList
      else certSANLoop rest (extraServerCertSANList @ [JStr temp]))"

definition extraServerCertSANs :: "('e, 'st) EtcdCluster \<Rightarrow> jv" where
  "extraServerCertSANs c =
     (let extraServerCertSANsStr = mapIndex (Annotations c) ''extraServerCertSANs'';
          extraServerCertSANList = certSANLoop (Split extraServerCertSANsStr CHR '','') []
      in if length extraServerCertSANList = 0 then JNilSlice
         else JSlice extraServerCertSANList)"

text \<open>
  The environment list after \<open>json.Marshal\<close> and \<open>json.Unmarshal\<close> into a slice that
  starts empty; both errors are dropped, and a failure leaves the slice as it was.
\<close>

definition envOf :: "'e json \<Rightarrow> ('e, 'st) EtcdCluster \<Rightarrow> jv" where
  "envOf js c =
     (case MarshalEnv js (Env (Spec c)) of
        Inl _ \<Rightarrow> JSlice []
      | Inr envBytes \<Rightarrow>
         (case UnmarshalAny js envBytes of
            Inl _ \<Rightarrow> JSlice []
          | Inr env \<Rightarrow> env))"

definition templateOf :: "'e json \<Rightarrow> ('e, 'st) EtcdCluster \<Rightarrow> (string \<times> jv) list" where
  "templateOf js c =
     [(''extraArgs'', JSlice [JStr ''logger=zap'']),
      (''labels'', JMap (map (\<lambda>(k, v). (k, JStr v)) (Labels c))),
      (''annotations'', JMap (map (\<lambda>(k, v). (k, JStr v)) (Annotations c))),
      (''env'', envOf js c),
      (''persistentVolumeClaimSpec'', JMap
         [(''accessModes'', JSlice [JStr ''ReadWriteOnce'']),
          (''resources'', JMap
             [(''requests'', JMap
                 [(''storage'', JStr (showNat (unat (DiskSize (Spec c))) @ ''Gi''))])])]),
      (''resources'', JMap
         [(''requests'', JMap
             [(''cpu'', JStr (showNat (unat (TotalCpu (Spec c))))),
              (''memory'', JStr (showNat (unat (TotalMem (Spec c))) @ ''Gi''))]),
          (''limits'', JMap
             [(''cpu'', JStr (showNat (unat (TotalCpu (Spec c))))),
              (''memory'', JStr (showNat (unat (TotalMem (Spec c))) @ ''Gi''))])])]"

definition generateEtcdSpec :: "'e json \<Rightarrow> ('e, 'st) EtcdCluster \<Rightarrow> jv" where
  "generateEtcdSpec js c =
     (let spec =
            [(''size'', JInt (sint (Size (Spec c)))),
             (''version'', JStr (Version (Spec c))),
             (''template'', JMap (templateOf js c))]
      in if mapIndex (Annotations c) ''scheme'' = ''https'' then
           JMap (AList.update ''template''
                   (JMap (AList.update ''extraArgs''
                            (JSlice [JStr ''logger=zap'', JStr ''client-cert-auth=true''])
                            (templateOf js c)))
                   (AList.update ''secure''
                      (JMap [(''tls'', JMap [(''autoTLSCert'', JMap
                          [(''autoGenerateClientCert'', JBool True),
                           (''autoGeneratePeerCert'', JBool True),
                           (''autoGenerateServerCert'', JBool True),
                           (''extraServerCertSANs'', extraServerCertSANs c)])])])
                      spec))
         else JMap spec)"

section \<open>The remote store\<close>

text \<open>
  \<open>clusterprovider.DynamicClient\<close> for the resource \<open>etcdclusters.etcd.tkestack.io\<close>:
  what the store answers to each request. Every operation below returns, next to its
  result, the list of requests it has sent, in order.
\<close>

record DynamicClient =
  Get_resp :: "string \<Rightarrow> string \<Rightarrow> error + jv"
  Create_resp :: "string \<Rightarrow> jv \<Rightarrow> error + jv"
  Update_resp :: "string \<Rightarrow> jv \<Rightarrow> error + jv"

datatype request =
    GetReq string string
  | CreateReq string jv
  | UpdateReq string jv

section \<open>Create\<close>

text \<open>
  \<open>controllerutil.SetOwnerReference\<close> writes the owner into the metadata of the request
  or fails; it is a parameter.
\<close>

definition Create ::
  "'e json \<Rightarrow> (('e, 'st) EtcdCluster \<Rightarrow> jv \<Rightarrow> error + jv) \<Rightarrow> DynamicClient \<Rightarrow>
   ('e, 'st) EtcdCluster \<Rightarrow> error option \<times> request list" where
  "Create js SetOwnerReference cl c =
     (let etcdcluster = JMap
            [(''apiVersion'', JStr ''etcd.tkestack.io/v1alpha1''),
             (''kind'', JStr ''EtcdCluster''),
             (''metadata'', JMap
                [(''name'', JStr (Name c)),
                 (''namespace'', JStr (Namespace c))]),
             (''spec'', generateEtcdSpec js c)]
      in case SetOwnerReference c etcdcluster of
           Inl err \<Rightarrow> (Some err, [])
         | Inr etcdclusterRequest \<Rightarrow>
            (case Create_resp cl (Namespace c) etcdclusterRequest of
               Inl err \<Rightarrow>
                 if \<not> IsAlreadyExists err
                 then (Some err, [CreateReq (Namespace c) etcdclusterRequest])
                 else (None, [CreateReq (Namespace c) etcdclusterRequest])
             | Inr _ \<Rightarrow> (None, [CreateReq (Namespace c) etcdclusterRequest])))"

section \<open>Update\<close>

definition updateEtcdSpec ::
  "'e json \<Rightarrow> ('e, 'st) EtcdCluster \<Rightarrow> jv \<Rightarrow> jv \<times> error option" where
  "updateEtcdSpec js c etcd =
     (let newSpec = generateEtcdSpec js c in
      case NestedMap etcd [''spec''] of
        (spec, found, err) \<Rightarrow>
          if err \<noteq> None \<or> \<not> found \<or> spec = JNilMap
          then (etcd, Some (errorString ''get spec error''))
          else SetNestedField1 etcd newSpec ''spec'')"

definition Update ::
  "'e json \<Rightarrow> DynamicClient \<Rightarrow> ('e, 'st) EtcdCluster \<Rightarrow> error option \<times> request list" where
  "Update js cl c =
     (case Get_resp cl (Namespace c) (Name c) of
        Inl err \<Rightarrow> (Some err, [GetReq (Namespace c) (Name c)])
      | Inr etcd0 \<Rightarrow>
         (case updateEtcdSpec js c etcd0 of
            (etcd, Some err) \<Rightarrow> (Some err, [GetReq (Namespace c) (Name c)])
          | (etcd, None) \<Rightarrow>
             (case Update_resp cl (Namespace c) etcd of
                Inl updateErr \<Rightarrow>
                  (Some updateErr,
                   [GetReq (Namespace c) (Name c), UpdateReq (Namespace c) etcd])
              | Inr _ \<Rightarrow>
                  (None, [GetReq (Namespace c) (Name c), UpdateReq (Namespace c) etcd]))))"

section \<open>Equal\<close>

text \<open>The length of a Go slice; a nil slice has length 0.\<close>

definition len :: "'a list option \<Rightarrow> nat" where
  "len xs = (case xs of None \<Rightarrow> 0 | Some l \<Rightarrow> length l)"

text \<open>
  The result is the pair the Go method returns and the lines it writes with
  \<open>klog.Info\<close>. \<open>reflect.DeepEqual\<close> on two slices of environment variables is equality
  of \<open>'e list option\<close>: a nil slice and an empty one differ.
\<close>

definition Equal ::
  "'e json \<Rightarrow> DynamicClient \<Rightarrow> ('e, 'st) EtcdCluster \<Rightarrow> bool \<times> error option \<times> string list" where
  "Equal js cl c =
     (case Get_resp cl (Namespace c) (Name c) of
        Inl err \<Rightarrow> (True, Some err, [])
      | Inr etcd \<Rightarrow>
         let oldSize = fst (NestedInt64 etcd [''spec'', ''size'']) in
         if sint (Size (Spec c)) \<noteq> oldSize then (False, None, [''size is different''])
         else
         let oldVersion = fst (NestedString etcd [''spec'', ''version'']) in
         if TrimLeft oldVersion ''v'' \<noteq> TrimLeft (Version (Spec c)) ''v''
         then (False, None, [''version is different''])
         else
         let oldStorage = fst (NestedString etcd
               [''spec'', ''template'', ''persistentVolumeClaimSpec'', ''resources'',
                ''requests'', ''storage'']) in
         if TrimRight oldStorage ''Gi'' \<noteq> Itoa (sint (DiskSize (Spec c)))
         then (False, None, [''storage is different''])
         else
         let oldCPU = fst (NestedString etcd
               [''spec'', ''template'', ''resources'', ''requests'', ''cpu'']) in
         if oldCPU \<noteq> Itoa (sint (TotalCpu (Spec c)))
         then (False, None, [''cpu is different''])
         else
         let oldMemory = fst (NestedString etcd
               [''spec'', ''template'', ''resources'', ''requests'', ''memory'']) in
         if TrimRight oldMemory ''Gi'' \<noteq> Itoa (sint (TotalMem (Spec c)))
         then (False, None, [''memory is different''])
         else
         let oldEnvObject = fst (NestedSlice etcd [''spec'', ''template'', ''env'']) in
         case MarshalAny js oldEnvObject of
           Inl err \<Rightarrow> (True, Some err, [])
         | Inr oldEnvBytes \<Rightarrow>
            (case UnmarshalEnv js oldEnvBytes of
               Inl err \<Rightarrow> (True, Some err, [])
             | Inr oldEnv \<Rightarrow>
                if len oldEnv = 0 \<and> len (Env (Spec c)) = 0 then (True, None, [])
                else if oldEnv \<noteq> Env (Spec c) then (False, None, [''env is different''])
                else (True, None, [])))"

section \<open>Status\<close>

text \<open>
  \<open>EtcdClusterPhase\<close> is a string type; the three constants the provider names are
  constructors and every other value is \<open>OtherPhase\<close>.
\<close>

datatype EtcdClusterPhase =
    EtcdCluterCreating
  | EtcdClusterRunning
  | EtcdClusterUnknown
  | OtherPhase string

record 'ms EtcdClusterStatus =
  Phase :: EtcdClusterPhase
  ServiceName :: string
  Members :: "'ms list"

text \<open>
  The collaborators of package \<open>clusterprovider\<close>: endpoint discovery, the member probe
  and the member status. \<open>'m\<close> is a member, \<open>'ms\<close> a member status, \<open>'tls\<close> the TLS
  configuration. The name of the annotation \<open>util.ClusterExtensionClientURL\<close> is a
  parameter of \<open>Status\<close>.
\<close>

record ('c, 'm, 'ms, 'tls) clusterprovider =
  GetStorageMemberEndpoints :: "'c \<Rightarrow> string list"
  GetRuntimeEtcdMembers :: "string list \<Rightarrow> string \<Rightarrow> 'tls \<Rightarrow> 'm list \<times> error option"
  GetEtcdClusterMemberStatus :: "'m list \<Rightarrow> 'tls \<Rightarrow> 'ms list \<times> EtcdClusterPhase"

definition AnnoImportedURI :: string where
  "AnnoImportedURI = ''importedAddr''"

definition Status ::
  "(('e, ('ms, 'z) EtcdClusterStatus_scheme) EtcdCluster, 'm, 'ms, 'tls) clusterprovider \<Rightarrow>
   string \<Rightarrow> ('e, ('ms, 'z) EtcdClusterStatus_scheme) EtcdCluster \<Rightarrow> 'tls \<Rightarrow>
   ('ms, 'z) EtcdClusterStatus_scheme \<times> error option" where
  "Status cp ClusterExtensionClientURL c tlsConfig =
     (let status = Status_field c;
          annotations = Annotations c;
          endpoints = GetStorageMemberEndpoints cp c
      in case (if length endpoints = 0 then
                 (case map_of annotations AnnoImportedURI of
                    Some addr \<Rightarrow> Inr (endpoints @ [addr], status\<lparr>ServiceName := addr\<rparr>)
                  | None \<Rightarrow> Inl (status\<lparr>Phase := EtcdCluterCreating\<rparr>, None))
               else Inr (endpoints, status)) of
           Inl early \<Rightarrow> early
         | Inr (endpoints, status) \<Rightarrow>
            (case GetRuntimeEtcdMembers cp endpoints
                    (mapIndex (Annotations c) ClusterExtensionClientURL) tlsConfig of
               (members, err) \<Rightarrow>
                 if err \<noteq> None \<or> length members = 0
                    \<or> sint (Size (Spec c)) \<noteq> int (length members)
                 then (if Phase status = EtcdClusterRunning
                       then status\<lparr>Phase := EtcdClusterUnknown\<rparr> else status, err)
                 else (case GetEtcdClusterMemberStatus cp members tlsConfig of
                         (ms, phase) \<Rightarrow>
                           let status = status\<lparr>Members := ms\<rparr> in
                           (if Phase status = EtcdClusterRunning \<or> phase \<noteq> EtcdClusterUnknown
                            then status\<lparr>Phase := phase\<rparr> else status, err))))"

section \<open>The feature provider\<close>

text \<open>
  \<open>FeatureRequest\<close> with its \<open>sync.Once\<close>, a flag that is set once the body has run.
  \<open>'srv\<close> is the inspection server, nil before the first \<open>Init\<close>; the constructor of
  the server and its \<open>Init\<close> are parameters.
\<close>

record ('srv, 'ctx) FeatureRequest =
  name :: string
  once :: bool
  inspection :: "'srv option"
  ctx :: 'ctx

definition Init ::
  "('ctx \<Rightarrow> 'srv) \<Rightarrow> ('srv \<Rightarrow> 'srv \<times> error option) \<Rightarrow> ('srv, 'ctx) FeatureRequest \<Rightarrow>
   error option \<times> ('srv, 'ctx) FeatureRequest" where
  "Init newServer serverInit c =
     (let err = None in
      if once c then (err, c)
      else (case serverInit (newServer (ctx c)) of
              (srv, err) \<Rightarrow> (err, c\<lparr>inspection := Some srv, once := True\<rparr>)))"

text \<open>A sequence of calls of \<open>Init\<close>, each with the server \<open>Init\<close> of its moment.\<close>

fun InitCalls ::
  "('ctx \<Rightarrow> 'srv) \<Rightarrow> ('srv \<Rightarrow> 'srv \<times> error option) list \<Rightarrow> ('srv, 'ctx) FeatureRequest \<Rightarrow>
   error option list \<times> ('srv, 'ctx) FeatureRequest" where
  "InitCalls newServer [] c = ([], c)"
| "InitCalls newServer (f # fs) c =
     (case Init newServer f c of
        (err, c') \<Rightarrow> (case InitCalls newServer fs c' of (errs, c'') \<Rightarrow> (err # errs, c'')))"

section \<open>Inputs of the examples\<close>

text \<open>
  A stand-in for \<open>encoding/json\<close> on the inputs the examples use. A nil slice is
  \<open>null\<close>, an empty one \<open>[]\<close>; the list of one empty object decodes to one
  environment variable with no field set (the \<open>unit\<close> value), the list \<open>[1]\<close> does
  not decode, and any other value is reported as an error.
\<close>

definition exampleJSON :: "unit json" where
  "exampleJSON =
     \<lparr>MarshalEnv = (\<lambda>e. case e of None \<Rightarrow> Inr ''null'' | Some [] \<Rightarrow> Inr ''[]''
                        | Some (_ # _) \<Rightarrow> Inl (errorString ''not in the example'')),
      UnmarshalAny = (\<lambda>b. if b = ''null'' then Inr JNilSlice else if b = ''[]'' then Inr (JSlice [])
                        else Inl (errorString ''not in the example'')),
      MarshalAny = (\<lambda>v. if v = JNilSlice then Inr ''null''
                        else if v = JSlice [] then Inr ''[]''
                        else if v = JSlice [JMap []] then Inr ''[{}]''
                        else if v = JSlice [JInt 1] then Inr ''[1]''
                        else Inl (errorString ''json: unsupported value'')),
      UnmarshalEnv = (\<lambda>b. if b = ''null'' then Inr None
                        else if b = ''[]'' then Inr (Some [])
                        else if b = ''[{}]'' then Inr (Some [()])
                        else Inl (errorString ''json: cannot unmarshal into Go value''))\<rparr>"

definition exampleCluster :: "(unit, string EtcdClusterStatus) EtcdCluster" where
  "exampleCluster =
     \<lparr>Name = ''demo'', Namespace = ''kstone'', Labels = [],
      Annotations = [],
      Spec = \<lparr>Size = 3, Version = ''v3.5.0'', DiskSize = 20, TotalCpu = 2, TotalMem = 4,
              Env = None\<rparr>,
      Status_field = \<lparr>Phase = EtcdClusterRunning, ServiceName = [],
                      Members = [''demo-etcd-0'', ''demo-etcd-1'', ''demo-etcd-2'']\<rparr>\<rparr>"

text \<open>The same cluster secured with TLS, with two extra names for the server certificate.\<close>

definition tlsCluster :: "(unit, string EtcdClusterStatus) EtcdCluster" where
  "tlsCluster = exampleCluster
     \<lparr>Annotations :=
        [(''scheme'', ''https''),
         (''extraServerCertSANs'', ''a.example.com, b.example.com '')]\<rparr>"



text \<open>An observed document with the six fields the drift detector reads.\<close>

definition observedDoc :: "int \<Rightarrow> string \<Rightarrow> string \<Rightarrow> string \<Rightarrow> string \<Rightarrow> jv \<Rightarrow> jv" where
  "observedDoc n version storage cpu memory env =
     JMap [(''apiVersion'', JStr ''etcd.tkestack.io/v1alpha1''),
           (''kind'', JStr ''EtcdCluster''),
           (''spec'', JMap
              [(''size'', JInt n),
               (''version'', JStr version),
               (''template'', JMap
                  [(''env'', env),
                   (''persistentVolumeClaimSpec'', JMap
                      [(''resources'', JMap
                          [(''requests'', JMap [(''storage'', JStr storage)])])]),
                   (''resources'', JMap
                      [(''requests'', JMap
                          [(''cpu'', JStr cpu), (''memory'', JStr memory)])])])])]"

text \<open>A store that holds the given document and accepts every write.\<close>

definition storeWith :: "jv \<Rightarrow> DynamicClient" where
  "storeWith doc =
     \<lparr>Get_resp = (\<lambda>ns n. Inr doc),
      Create_resp = (\<lambda>ns d. Inr d),
      Update_resp = (\<lambda>ns d. Inr d)\<rparr>"

text \<open>A store that cannot be reached.\<close>

definition brokenStore :: DynamicClient where
  "brokenStore =
     \<lparr>Get_resp = (\<lambda>ns n. Inl (errorString ''connection refused'')),
      Create_resp = (\<lambda>ns d. Inl (errorString ''connection refused'')),
      Update_resp = (\<lambda>ns d. Inl (errorString ''connection refused''))\<rparr>"

text \<open>
  Collaborators with fixed answers: the endpoints found, what the probe returns and
  what the member status returns. Members and member statuses are names.
\<close>

definition providerWith ::
  "string list \<Rightarrow> string list \<times> error option \<Rightarrow> string list \<times> EtcdClusterPhase \<Rightarrow>
   ((unit, string EtcdClusterStatus) EtcdCluster, string, string, unit) clusterprovider" where
  "providerWith endpoints probe memberStatus =
     \<lparr>GetStorageMemberEndpoints = (\<lambda>c. endpoints),
      GetRuntimeEtcdMembers = (\<lambda>eps url tls. probe),
      GetEtcdClusterMemberStatus = (\<lambda>members tls. memberStatus)\<rparr>"

text \<open>The example cluster once imported: it carries the address it was imported from.\<close>

definition importedCluster :: "(unit, string EtcdClusterStatus) EtcdCluster" where
  "importedCluster = exampleCluster
     \<lparr>Annotations := [(''importedAddr'', ''https://demo-etcd.kstone.svc.cluster.local:2379'')]\<rparr>"

text \<open>The example cluster before its members are up.\<close>

definition creatingCluster :: "(unit, string EtcdClusterStatus) EtcdCluster" where
  "creatingCluster = exampleCluster
     \<lparr>Status_field := \<lparr>Phase = EtcdCluterCreating, ServiceName = [], Members = []\<rparr>\<rparr>"

definition probeTimeout :: "string list \<times> error option" where
  "probeTimeout = ([], Some (errorString ''context deadline exceeded''))"

definition probeThree :: "string list \<times> error option" where
  "probeThree = ([''m0'', ''m1'', ''m2''], None)"

text \<open>A store in which the resource to create is already there.\<close>

definition existsStore :: DynamicClient where
  "existsStore =
     \<lparr>Get_resp = (\<lambda>ns n. Inr (observedDoc 3 ''3.5.0'' ''20Gi'' ''2'' ''4Gi'' JNilSlice)),
      Create_resp = (\<lambda>ns d. Inl (StatusError StatusReasonAlreadyExists
                                    ''etcdclusters.etcd.tkestack.io demo already exists'')),
      Update_resp = (\<lambda>ns d. Inr d)\<rparr>"

text \<open>
  A stand-in for \<open>SetOwnerReference\<close> that always succeeds: it puts one owner reference
  into the metadata of the request.
\<close>

definition exampleSetOwner :: "(unit, string EtcdClusterStatus) EtcdCluster \<Rightarrow> jv \<Rightarrow> error + jv" where
  "exampleSetOwner c obj =
     Inr (case obj of
            JMap m \<Rightarrow>
              JMap (AList.update ''metadata''
                (JMap (AList.update ''ownerReferences''
                   (JSlice [JMap [(''kind'', JStr ''EtcdCluster''), (''name'', JStr (Name c))]])
                   (case map_of m ''metadata'' of Some (JMap md) \<Rightarrow> md | _ \<Rightarrow> [])))
                m)
          | _ \<Rightarrow> obj)"

text \<open>A feature provider that has not been initialised, and a server whose \<open>Init\<close> fails.\<close>

definition exampleFeature :: "(string, string) FeatureRequest" where
  "exampleFeature = \<lparr>name = ''request'', once = False, inspection = None, ctx = ''clientbuilder''\<rparr>"

definition failingInit :: "string \<Rightarrow> string \<times> error option" where
  "failingInit srv = (srv, Some (errorString ''dial tcp: i/o timeout''))"

definition workingInit :: "string \<Rightarrow> string \<times> error option" where
  "workingInit srv = (srv @ ''-ready'', None)"

section \<open>Decimal rendering\<close>

lemma digit_in: "d < 10 \<Longrightarrow> digit d \<in> set ''0123456789''"
  unfolding digit_def by (rule nth_mem) simp

lemma digitVal_digit: "d < 10 \<Longrightarrow> digitVal (digit d) = d"
proof -
  assume "d < 10"
  then have "d \<in> {0, 1, 2, 3, 4, 5, 6, 7, 8, 9}" by auto
  then show ?thesis by (auto simp: digit_def digitVal_def)
qed

lemma showNat_digits: "set (showNat n) \<subseteq> set ''0123456789''"
proof (induction n rule: showNat.induct)
  case (1 n)
  show ?case
  proof (cases "n < 10")
    case True
    then show ?thesis using digit_in [of n] by (subst showNat.simps) simp
  next
    case False
    have "n mod 10 < 10" by simp
    then have "digit (n mod 10) \<in> set ''0123456789''" by (rule digit_in)
    with False 1 show ?thesis by (subst showNat.simps) simp
  qed
qed

lemma showNat_not_Nil: "showNat n \<noteq> []"
  by (subst showNat.simps) simp

lemma readNat_snoc: "readNat (s @ [c]) = 10 * readNat s + digitVal c"
  by (simp add: readNat_def)

lemma readNat_showNat: "readNat (showNat n) = n"
proof (induction n rule: showNat.induct)
  case (1 n)
  show ?case
  proof (cases "n < 10")
    case True
    then show ?thesis by (subst showNat.simps) (simp add: readNat_def digitVal_digit)
  next
    case False
    have "readNat (showNat n) =
            10 * readNat (showNat (n div 10)) + digitVal (digit (n mod 10))"
      using False by (subst showNat.simps) (simp add: readNat_snoc)
    also have "\<dots> = 10 * (n div 10) + n mod 10"
      using 1 False by (simp add: digitVal_digit)
    finally show ?thesis by simp
  qed
qed

lemma TrimRight_disjoint:
  assumes "s \<noteq> []" and "set s \<inter> set cs = {}"
  shows "TrimRight (s @ cs) cs = s"
proof -
  have "last s \<notin> set cs" using assms by (metis disjoint_iff last_in_set)
  then have "dropWhile (\<lambda>c. c \<in> set cs) (rev s) = rev s"
    using assms(1) by (cases s rule: rev_cases) auto
  moreover have "dropWhile (\<lambda>c. c \<in> set cs) (rev cs @ rev s) =
                   dropWhile (\<lambda>c. c \<in> set cs) (rev s)"
    by (rule dropWhile_append2) simp
  ultimately show ?thesis by (simp add: TrimRight_def)
qed

lemma TrimRight_showNat_Gi: "TrimRight (showNat n @ ''Gi'') ''Gi'' = showNat n"
proof (rule TrimRight_disjoint)
  show "showNat n \<noteq> []" by (rule showNat_not_Nil)
  have "CHR ''G'' \<notin> set ''0123456789''" and "CHR ''i'' \<notin> set ''0123456789''"
    by simp_all
  then show "set (showNat n) \<inter> set ''Gi'' = {}"
    using showNat_digits [of n] by auto
qed

section \<open>The synthesized document\<close>

lemma spec_template_lookup:
  "NestedFieldNoCopy (generateEtcdSpec js c) (''template'' # k # path) =
     (if k = ''extraArgs'' \<and> mapIndex (Annotations c) ''scheme'' = ''https''
      then NestedFieldNoCopy (JSlice [JStr ''logger=zap'', JStr ''client-cert-auth=true'']) path
      else NestedFieldNoCopy (JMap (templateOf js c)) (k # path))"
  by (simp add: generateEtcdSpec_def Let_def update_conv')

lemma storage_lookup:
  "NestedString (generateEtcdSpec js c)
     [''template'', ''persistentVolumeClaimSpec'', ''resources'', ''requests'', ''storage''] =
   (showNat (unat (DiskSize (Spec c))) @ ''Gi'', True, None)"
  unfolding NestedString_def spec_template_lookup
  by (simp add: templateOf_def)

lemma resources_lookup:
  "NestedString (generateEtcdSpec js c) [''template'', ''resources'', ''requests'', ''cpu''] =
     (showNat (unat (TotalCpu (Spec c))), True, None)"
  "NestedString (generateEtcdSpec js c) [''template'', ''resources'', ''requests'', ''memory''] =
     (showNat (unat (TotalMem (Spec c))) @ ''Gi'', True, None)"
  "NestedString (generateEtcdSpec js c) [''template'', ''resources'', ''limits'', ''cpu''] =
     (showNat (unat (TotalCpu (Spec c))), True, None)"
  "NestedString (generateEtcdSpec js c) [''template'', ''resources'', ''limits'', ''memory''] =
     (showNat (unat (TotalMem (Spec c))) @ ''Gi'', True, None)"
  unfolding NestedString_def spec_template_lookup
  by (simp_all add: templateOf_def)

text \<open>
  C7. Synthesis renders the disk size and the memory as the decimal digits of the count
  followed by \<open>Gi\<close>, and the cpu count as its bare decimal digits. Cutting \<open>Gi\<close> off the
  rendered disk size or memory and reading the digits gives the count back; so does any
  natural number rendered this way.
\<close>

theorem quantities_rendered:
  "NestedString (generateEtcdSpec js c)
     [''template'', ''persistentVolumeClaimSpec'', ''resources'', ''requests'', ''storage'']
     = (showNat (unat (DiskSize (Spec c))) @ ''Gi'', True, None)
   \<and> NestedString (generateEtcdSpec js c) [''template'', ''resources'', ''requests'', ''memory'']
     = (showNat (unat (TotalMem (Spec c))) @ ''Gi'', True, None)
   \<and> NestedString (generateEtcdSpec js c) [''template'', ''resources'', ''limits'', ''memory'']
     = (showNat (unat (TotalMem (Spec c))) @ ''Gi'', True, None)
   \<and> NestedString (generateEtcdSpec js c) [''template'', ''resources'', ''requests'', ''cpu'']
     = (showNat (unat (TotalCpu (Spec c))), True, None)
   \<and> NestedString (generateEtcdSpec js c) [''template'', ''resources'', ''limits'', ''cpu'']
     = (showNat (unat (TotalCpu (Spec c))), True, None)
   \<and> readNat (TrimRight (fst (NestedString (generateEtcdSpec js c)
        [''template'', ''persistentVolumeClaimSpec'', ''resources'', ''requests'', ''storage'']))
        ''Gi'') = unat (DiskSize (Spec c))
   \<and> readNat (TrimRight (fst (NestedString (generateEtcdSpec js c)
        [''template'', ''resources'', ''requests'', ''memory''])) ''Gi'')
     = unat (TotalMem (Spec c))
   \<and> readNat (showNat n) = n
   \<and> readNat (TrimRight (showNat n @ ''Gi'') ''Gi'') = n"
  by (simp only: storage_lookup resources_lookup fst_conv TrimRight_showNat_Gi readNat_showNat
        simp_thms)

theorem quantities_rendered_witness:
  "NestedString (generateEtcdSpec exampleJSON exampleCluster)
     [''template'', ''persistentVolumeClaimSpec'', ''resources'', ''requests'', ''storage'']
     = (''20Gi'', True, None)
   \<and> NestedString (generateEtcdSpec exampleJSON exampleCluster)
        [''template'', ''resources'', ''requests'', ''memory''] = (''4Gi'', True, None)
   \<and> NestedString (generateEtcdSpec exampleJSON exampleCluster)
        [''template'', ''resources'', ''requests'', ''cpu''] = (''2'', True, None)
   \<and> readNat (TrimRight ''20Gi'' ''Gi'') = 20"
  using quantities_rendered [of exampleJSON exampleCluster 20]
  by (simp add: exampleCluster_def digit_def showNat.simps)

section \<open>Extra names and the TLS branch\<close>




lemma Split_not_Nil: "Split s sep \<noteq> []"
  by (induction s) (auto split: list.splits)


















section \<open>Drift detection\<close>

text \<open>
  C1. With the observed document fetched, the drift detector compares the size, the
  version, the storage, the cpu request, the memory request and the environment list,
  in this order. The first field that differs decides: the answer is not-equal with no
  error and the one diagnostic that names this field, whatever the later fields hold
  and whatever the JSON conversions would do. When all six match, the answer is equal.
\<close>

theorem Equal_field_order:
  assumes "Get_resp cl (Namespace c) (Name c) = Inr etcd"
  shows
  "(sint (Size (Spec c)) \<noteq> fst (NestedInt64 etcd [''spec'', ''size'']) \<longrightarrow>
      Equal js cl c = (False, None, [''size is different'']))
   \<and> (sint (Size (Spec c)) = fst (NestedInt64 etcd [''spec'', ''size'']) \<and>
      TrimLeft (fst (NestedString etcd [''spec'', ''version''])) ''v''
        \<noteq> TrimLeft (Version (Spec c)) ''v'' \<longrightarrow>
      Equal js cl c = (False, None, [''version is different'']))
   \<and> (sint (Size (Spec c)) = fst (NestedInt64 etcd [''spec'', ''size'']) \<and>
      TrimLeft (fst (NestedString etcd [''spec'', ''version''])) ''v''
        = TrimLeft (Version (Spec c)) ''v'' \<and>
      TrimRight (fst (NestedString etcd [''spec'', ''template'', ''persistentVolumeClaimSpec'',
          ''resources'', ''requests'', ''storage''])) ''Gi''
        \<noteq> Itoa (sint (DiskSize (Spec c))) \<longrightarrow>
      Equal js cl c = (False, None, [''storage is different'']))
   \<and> (sint (Size (Spec c)) = fst (NestedInt64 etcd [''spec'', ''size'']) \<and>
      TrimLeft (fst (NestedString etcd [''spec'', ''version''])) ''v''
        = TrimLeft (Version (Spec c)) ''v'' \<and>
      TrimRight (fst (NestedString etcd [''spec'', ''template'', ''persistentVolumeClaimSpec'',
          ''resources'', ''requests'', ''storage''])) ''Gi''
        = Itoa (sint (DiskSize (Spec c))) \<and>
      fst (NestedString etcd [''spec'', ''template'', ''resources'', ''requests'', ''cpu''])
        \<noteq> Itoa (sint (TotalCpu (Spec c))) \<longrightarrow>
      Equal js cl c = (False, None, [''cpu is different'']))
   \<and> (sint (Size (Spec c)) = fst (NestedInt64 etcd [''spec'', ''size'']) \<and>
      TrimLeft (fst (NestedString etcd [''spec'', ''version''])) ''v''
        = TrimLeft (Version (Spec c)) ''v'' \<and>
      TrimRight (fst (NestedString etcd [''spec'', ''template'', ''persistentVolumeClaimSpec'',
          ''resources'', ''requests'', ''storage''])) ''Gi''
        = Itoa (sint (DiskSize (Spec c))) \<and>
      fst (NestedString etcd [''spec'', ''template'', ''resources'', ''requests'', ''cpu''])
        = Itoa (sint (TotalCpu (Spec c))) \<and>
      TrimRight (fst (NestedString etcd
          [''spec'', ''template'', ''resources'', ''requests'', ''memory''])) ''Gi''
        \<noteq> Itoa (sint (TotalMem (Spec c))) \<longrightarrow>
      Equal js cl c = (False, None, [''memory is different'']))
   \<and> (sint (Size (Spec c)) = fst (NestedInt64 etcd [''spec'', ''size'']) \<and>
      TrimLeft (fst (NestedString etcd [''spec'', ''version''])) ''v''
        = TrimLeft (Version (Spec c)) ''v'' \<and>
      TrimRight (fst (NestedString etcd [''spec'', ''template'', ''persistentVolumeClaimSpec'',
          ''resources'', ''requests'', ''storage''])) ''Gi''
        = Itoa (sint (DiskSize (Spec c))) \<and>
      fst (NestedString etcd [''spec'', ''template'', ''resources'', ''requests'', ''cpu''])
        = Itoa (sint (TotalCpu (Spec c))) \<and>
      TrimRight (fst (NestedString etcd
          [''spec'', ''template'', ''resources'', ''requests'', ''memory''])) ''Gi''
        = Itoa (sint (TotalMem (Spec c))) \<and>
      MarshalAny js (fst (NestedSlice etcd [''spec'', ''template'', ''env''])) = Inr oldEnvBytes \<and>
      UnmarshalEnv js oldEnvBytes = Inr oldEnv \<longrightarrow>
      Equal js cl c =
        (if (len oldEnv = 0 \<and> len (Env (Spec c)) = 0) \<or> oldEnv = Env (Spec c)
         then (True, None, []) else (False, None, [''env is different''])))"
  using assms by (simp add: Equal_def Let_def)

text \<open>
  C10. When the observed document cannot be fetched, the drift detector answers equal
  together with the error of the fetch. When the five scalar fields match and the
  observed environment list cannot be encoded, or its encoding cannot be decoded into
  environment variables, it answers equal together with that error.
\<close>

theorem Equal_true_on_failed_read:
  "(Get_resp cl (Namespace c) (Name c) = Inl err \<longrightarrow> Equal js cl c = (True, Some err, []))
   \<and> (Get_resp cl (Namespace c) (Name c) = Inr etcd \<and>
      sint (Size (Spec c)) = fst (NestedInt64 etcd [''spec'', ''size'']) \<and>
      TrimLeft (fst (NestedString etcd [''spec'', ''version''])) ''v''
        = TrimLeft (Version (Spec c)) ''v'' \<and>
      TrimRight (fst (NestedString etcd [''spec'', ''template'', ''persistentVolumeClaimSpec'',
          ''resources'', ''requests'', ''storage''])) ''Gi''
        = Itoa (sint (DiskSize (Spec c))) \<and>
      fst (NestedString etcd [''spec'', ''template'', ''resources'', ''requests'', ''cpu''])
        = Itoa (sint (TotalCpu (Spec c))) \<and>
      TrimRight (fst (NestedString etcd
          [''spec'', ''template'', ''resources'', ''requests'', ''memory''])) ''Gi''
        = Itoa (sint (TotalMem (Spec c))) \<longrightarrow>
      (MarshalAny js (fst (NestedSlice etcd [''spec'', ''template'', ''env''])) = Inl err \<longrightarrow>
         Equal js cl c = (True, Some err, []))
      \<and> (MarshalAny js (fst (NestedSlice etcd [''spec'', ''template'', ''env''])) = Inr oldEnvBytes \<and>
         UnmarshalEnv js oldEnvBytes = Inl err \<longrightarrow>
         Equal js cl c = (True, Some err, [])))"
  by (simp add: Equal_def Let_def)

lemma example_Itoa: "Itoa 20 = ''20''" "Itoa 2 = ''2''" "Itoa 4 = ''4''" "Itoa 3 = ''3''"
  by (simp_all add: Itoa_def showNat.simps digit_def)


lemma observedDoc_fields:
  "fst (NestedInt64 (observedDoc n v s cpu m e) [''spec'', ''size'']) = n"
  "fst (NestedString (observedDoc n v s cpu m e) [''spec'', ''version'']) = v"
  "fst (NestedString (observedDoc n v s cpu m e)
     [''spec'', ''template'', ''persistentVolumeClaimSpec'', ''resources'', ''requests'',
      ''storage'']) = s"
  "fst (NestedString (observedDoc n v s cpu m e)
     [''spec'', ''template'', ''resources'', ''requests'', ''cpu'']) = cpu"
  "fst (NestedString (observedDoc n v s cpu m e)
     [''spec'', ''template'', ''resources'', ''requests'', ''memory'']) = m"
  "fst (NestedSlice (observedDoc n v s cpu m (JSlice xs)) [''spec'', ''template'', ''env''])
     = JSlice xs"
  "fst (NestedSlice (observedDoc n v s cpu m JNilSlice) [''spec'', ''template'', ''env''])
     = JNilSlice"
  by (simp_all add: observedDoc_def NestedInt64_def NestedString_def NestedSlice_def)

lemma exampleCluster_fields:
  "sint (Size (Spec exampleCluster)) = 3"
  "Version (Spec exampleCluster) = ''v3.5.0''"
  "Itoa (sint (DiskSize (Spec exampleCluster))) = ''20''"
  "Itoa (sint (TotalCpu (Spec exampleCluster))) = ''2''"
  "Itoa (sint (TotalMem (Spec exampleCluster))) = ''4''"
  "Env (Spec exampleCluster) = None"
  by (simp_all add: exampleCluster_def example_Itoa)

lemma example_trims:
  "TrimLeft ''v3.5.0'' ''v'' = ''3.5.0''"
  "TrimLeft ''3.5.0'' ''v'' = ''3.5.0''"
  "TrimLeft ''3.4.0'' ''v'' = ''3.4.0''"
  "TrimRight ''20Gi'' ''Gi'' = ''20''"
  "TrimRight ''4Gi'' ''Gi'' = ''4''"
  "TrimRight ''1Gi'' ''Gi'' = ''1''"
  by (simp_all add: TrimLeft_def TrimRight_def)

lemma storeWith_Get: "Get_resp (storeWith d) ns n = Inr d"
  by (simp add: storeWith_def)

lemma exampleJSON_env:
  "MarshalAny exampleJSON JNilSlice = Inr ''null''"
  "MarshalAny exampleJSON (JSlice [JMap []]) = Inr ''[{}]''"
  "MarshalAny exampleJSON (JSlice [JInt 1]) = Inr ''[1]''"
  "MarshalAny exampleJSON (JSlice [JInt 2]) = Inl (errorString ''json: unsupported value'')"
  "UnmarshalEnv exampleJSON ''null'' = Inr None"
  "UnmarshalEnv exampleJSON ''[{}]'' = Inr (Some [()])"
  "UnmarshalEnv exampleJSON ''[1]'' = Inl (errorString ''json: cannot unmarshal into Go value'')"
  by (simp_all add: exampleJSON_def)

theorem Equal_field_order_witness:
  "Equal exampleJSON
     (storeWith (observedDoc 5 ''3.4.0'' ''1Gi'' ''9'' ''1Gi'' (JSlice [JInt 1])))
     exampleCluster = (False, None, [''size is different''])
   \<and> Equal exampleJSON
     (storeWith (observedDoc 3 ''3.4.0'' ''1Gi'' ''9'' ''1Gi'' (JSlice [JInt 1])))
     exampleCluster = (False, None, [''version is different''])
   \<and> Equal exampleJSON
     (storeWith (observedDoc 3 ''3.5.0'' ''1Gi'' ''9'' ''1Gi'' (JSlice [JInt 1])))
     exampleCluster = (False, None, [''storage is different''])
   \<and> Equal exampleJSON
     (storeWith (observedDoc 3 ''3.5.0'' ''20Gi'' ''9'' ''1Gi'' (JSlice [JInt 1])))
     exampleCluster = (False, None, [''cpu is different''])
   \<and> Equal exampleJSON
     (storeWith (observedDoc 3 ''3.5.0'' ''20Gi'' ''2'' ''1Gi'' (JSlice [JInt 1])))
     exampleCluster = (False, None, [''memory is different''])
   \<and> Equal exampleJSON
     (storeWith (observedDoc 3 ''3.5.0'' ''20Gi'' ''2'' ''4Gi'' (JSlice [JMap []])))
     exampleCluster = (False, None, [''env is different''])
   \<and> Equal exampleJSON
     (storeWith (observedDoc 3 ''3.5.0'' ''20Gi'' ''2'' ''4Gi'' JNilSlice))
     exampleCluster = (True, None, [])"
proof (intro conjI)
  note ev = observedDoc_fields exampleCluster_fields example_trims exampleJSON_env len_def
  show "Equal exampleJSON
     (storeWith (observedDoc 5 ''3.4.0'' ''1Gi'' ''9'' ''1Gi'' (JSlice [JInt 1])))
     exampleCluster = (False, None, [''size is different''])"
    using Equal_field_order [OF storeWith_Get, of exampleCluster
        "observedDoc 5 ''3.4.0'' ''1Gi'' ''9'' ''1Gi'' (JSlice [JInt 1])" exampleJSON]
    by (simp add: ev)
  show "Equal exampleJSON
     (storeWith (observedDoc 3 ''3.4.0'' ''1Gi'' ''9'' ''1Gi'' (JSlice [JInt 1])))
     exampleCluster = (False, None, [''version is different''])"
    using Equal_field_order [OF storeWith_Get, of exampleCluster
        "observedDoc 3 ''3.4.0'' ''1Gi'' ''9'' ''1Gi'' (JSlice [JInt 1])" exampleJSON]
    by (simp add: ev)
  show "Equal exampleJSON
     (storeWith (observedDoc 3 ''3.5.0'' ''1Gi'' ''9'' ''1Gi'' (JSlice [JInt 1])))
     exampleCluster = (False, None, [''storage is different''])"
    using Equal_field_order [OF storeWith_Get, of exampleCluster
        "observedDoc 3 ''3.5.0'' ''1Gi'' ''9'' ''1Gi'' (JSlice [JInt 1])" exampleJSON]
    by (simp add: ev)
  show "Equal exampleJSON
     (storeWith (observedDoc 3 ''3.5.0'' ''20Gi'' ''9'' ''1Gi'' (JSlice [JInt 1])))
     exampleCluster = (False, None, [''cpu is different''])"
    using Equal_field_order [OF storeWith_Get, of exampleCluster
        "observedDoc 3 ''3.5.0'' ''20Gi'' ''9'' ''1Gi'' (JSlice [JInt 1])" exampleJSON]
    by (simp add: ev)
  show "Equal exampleJSON
     (storeWith (observedDoc 3 ''3.5.0'' ''20Gi'' ''2'' ''1Gi'' (JSlice [JInt 1])))
     exampleCluster = (False, None, [''memory is different''])"
    using Equal_field_order [OF storeWith_Get, of exampleCluster
        "observedDoc 3 ''3.5.0'' ''20Gi'' ''2'' ''1Gi'' (JSlice [JInt 1])" exampleJSON]
    by (simp add: ev)
  show "Equal exampleJSON
     (storeWith (observedDoc 3 ''3.5.0'' ''20Gi'' ''2'' ''4Gi'' (JSlice [JMap []])))
     exampleCluster = (False, None, [''env is different''])"
    using Equal_field_order [OF storeWith_Get, of exampleCluster
        "observedDoc 3 ''3.5.0'' ''20Gi'' ''2'' ''4Gi'' (JSlice [JMap []])" exampleJSON
        "''[{}]''" "Some [()]"]
    by (simp add: ev)
  show "Equal exampleJSON
     (storeWith (observedDoc 3 ''3.5.0'' ''20Gi'' ''2'' ''4Gi'' JNilSlice))
     exampleCluster = (True, None, [])"
    using Equal_field_order [OF storeWith_Get, of exampleCluster
        "observedDoc 3 ''3.5.0'' ''20Gi'' ''2'' ''4Gi'' JNilSlice" exampleJSON
        "''null''" None]
    by (simp add: ev)
qed

theorem Equal_true_on_failed_read_witness:
  "Equal exampleJSON brokenStore exampleCluster =
     (True, Some (errorString ''connection refused''), [])
   \<and> Equal exampleJSON
     (storeWith (observedDoc 3 ''3.5.0'' ''20Gi'' ''2'' ''4Gi'' (JSlice [JInt 2])))
     exampleCluster = (True, Some (errorString ''json: unsupported value''), [])
   \<and> Equal exampleJSON
     (storeWith (observedDoc 3 ''3.5.0'' ''20Gi'' ''2'' ''4Gi'' (JSlice [JInt 1])))
     exampleCluster = (True, Some (errorString ''json: cannot unmarshal into Go value''), [])"
proof (intro conjI)
  note ev = observedDoc_fields exampleCluster_fields example_trims exampleJSON_env
    storeWith_Get
  show "Equal exampleJSON brokenStore exampleCluster =
     (True, Some (errorString ''connection refused''), [])"
    using Equal_true_on_failed_read [of brokenStore exampleCluster
        "errorString ''connection refused''" exampleJSON]
    by (simp add: brokenStore_def)
  show "Equal exampleJSON
     (storeWith (observedDoc 3 ''3.5.0'' ''20Gi'' ''2'' ''4Gi'' (JSlice [JInt 2])))
     exampleCluster = (True, Some (errorString ''json: unsupported value''), [])"
    using Equal_true_on_failed_read [of
        "storeWith (observedDoc 3 ''3.5.0'' ''20Gi'' ''2'' ''4Gi'' (JSlice [JInt 2]))"
        exampleCluster "errorString ''json: unsupported value''" exampleJSON
        "observedDoc 3 ''3.5.0'' ''20Gi'' ''2'' ''4Gi'' (JSlice [JInt 2])"]
    by (simp add: ev)
  show "Equal exampleJSON
     (storeWith (observedDoc 3 ''3.5.0'' ''20Gi'' ''2'' ''4Gi'' (JSlice [JInt 1])))
     exampleCluster = (True, Some (errorString ''json: cannot unmarshal into Go value''), [])"
    using Equal_true_on_failed_read [of
        "storeWith (observedDoc 3 ''3.5.0'' ''20Gi'' ''2'' ''4Gi'' (JSlice [JInt 1]))"
        exampleCluster "errorString ''json: cannot unmarshal into Go value''" exampleJSON
        "observedDoc 3 ''3.5.0'' ''20Gi'' ''2'' ''4Gi'' (JSlice [JInt 1])" "''[1]''"]
    by (simp add: ev)
qed

section \<open>Health aggregation\<close>

text \<open>
  C2. Once the endpoints are settled (those found, or the imported address when none is
  found), the probe decides. When it fails, returns no member, or returns a number of
  members other than the declared size, a previous phase Running becomes Unknown, any
  other previous phase stays, and the error of the probe is returned. When it succeeds,
  the candidate phase replaces the previous one exactly if the previous phase was
  Running or the candidate is not Unknown.
\<close>

theorem Status_hysteresis:
  assumes "GetStorageMemberEndpoints cp c \<noteq> [] \<and> eps = GetStorageMemberEndpoints cp c
             \<and> prev = Status_field c
           \<or> GetStorageMemberEndpoints cp c = []
             \<and> map_of (Annotations c) AnnoImportedURI = Some addr
             \<and> eps = [addr] \<and> prev = (Status_field c)\<lparr>ServiceName := addr\<rparr>"
    and "GetRuntimeEtcdMembers cp eps (mapIndex (Annotations c) key) tlsConfig = (members, err)"
    and "GetEtcdClusterMemberStatus cp members tlsConfig = (ms, phase)"
  shows
  "(err \<noteq> None \<or> members = [] \<or> sint (Size (Spec c)) \<noteq> int (length members) \<longrightarrow>
      Status cp key c tlsConfig =
        (if Phase prev = EtcdClusterRunning then prev\<lparr>Phase := EtcdClusterUnknown\<rparr> else prev, err))
   \<and> (err = None \<and> members \<noteq> [] \<and> sint (Size (Spec c)) = int (length members) \<longrightarrow>
      Status cp key c tlsConfig =
        (if Phase prev = EtcdClusterRunning \<or> phase \<noteq> EtcdClusterUnknown
         then prev\<lparr>Members := ms, Phase := phase\<rparr> else prev\<lparr>Members := ms\<rparr>, None))"
  using assms by (auto simp: Status_def Let_def)

text \<open>
  C4 (amended). When no endpoint is known and the annotation \<open>importedAddr\<close> is absent,
  the phase becomes Creating, nothing else in the status changes, no error is returned
  and the probe plays no part. When the annotation is present, its value is the one
  endpoint and the service name, and the call goes on as with that endpoint found.
  The member list is also left as it was whenever the probe fails, returns no member
  or returns a number of members other than the declared size.
\<close>

theorem Status_creating_without_endpoint:
  "(GetStorageMemberEndpoints cp c = [] \<and> map_of (Annotations c) AnnoImportedURI = None \<longrightarrow>
      Status cp key c tlsConfig = ((Status_field c)\<lparr>Phase := EtcdCluterCreating\<rparr>, None))
   \<and> (GetStorageMemberEndpoints cp c = [] \<and> map_of (Annotations c) AnnoImportedURI = Some addr \<longrightarrow>
      Status cp key c tlsConfig =
        Status (cp\<lparr>GetStorageMemberEndpoints := (\<lambda>_. [addr])\<rparr>) key
          (c\<lparr>Status_field := (Status_field c)\<lparr>ServiceName := addr\<rparr>\<rparr>) tlsConfig)
   \<and> ((let eps = (if GetStorageMemberEndpoints cp c = []
                    then (case map_of (Annotations c) AnnoImportedURI of
                            None \<Rightarrow> [] | Some a \<Rightarrow> [a])
                    else GetStorageMemberEndpoints cp c)
         in case GetRuntimeEtcdMembers cp eps (mapIndex (Annotations c) key) tlsConfig of
              (members, err) \<Rightarrow>
                err \<noteq> None \<or> members = [] \<or> sint (Size (Spec c)) \<noteq> int (length members)) \<longrightarrow>
      Members (fst (Status cp key c tlsConfig)) = Members (Status_field c))"
proof (intro conjI impI)
  assume "GetStorageMemberEndpoints cp c = [] \<and> map_of (Annotations c) AnnoImportedURI = None"
  then show "Status cp key c tlsConfig = ((Status_field c)\<lparr>Phase := EtcdCluterCreating\<rparr>, None)"
    by (simp add: Status_def Let_def)
next
  assume "GetStorageMemberEndpoints cp c = [] \<and> map_of (Annotations c) AnnoImportedURI = Some addr"
  then show "Status cp key c tlsConfig =
        Status (cp\<lparr>GetStorageMemberEndpoints := (\<lambda>_. [addr])\<rparr>) key
          (c\<lparr>Status_field := (Status_field c)\<lparr>ServiceName := addr\<rparr>\<rparr>) tlsConfig"
    by (simp add: Status_def Let_def split: prod.splits)
next
  assume "let eps = (if GetStorageMemberEndpoints cp c = []
                    then (case map_of (Annotations c) AnnoImportedURI of
                            None \<Rightarrow> [] | Some a \<Rightarrow> [a])
                    else GetStorageMemberEndpoints cp c)
         in case GetRuntimeEtcdMembers cp eps (mapIndex (Annotations c) key) tlsConfig of
              (members, err) \<Rightarrow>
                err \<noteq> None \<or> members = [] \<or> sint (Size (Spec c)) \<noteq> int (length members)"
  then show "Members (fst (Status cp key c tlsConfig)) = Members (Status_field c)"
    by (auto simp: Status_def Let_def split: option.splits prod.splits if_splits)
qed


lemma providerWith_sel:
  "GetStorageMemberEndpoints (providerWith eps probe mst) c = eps"
  "GetRuntimeEtcdMembers (providerWith eps probe mst) es url tlsConfig = probe"
  "GetEtcdClusterMemberStatus (providerWith eps probe mst) members tlsConfig = mst"
  by (simp_all add: providerWith_def)

lemma example_status:
  "Status_field exampleCluster =
     \<lparr>Phase = EtcdClusterRunning, ServiceName = [],
      Members = [''demo-etcd-0'', ''demo-etcd-1'', ''demo-etcd-2'']\<rparr>"
  "Status_field creatingCluster = \<lparr>Phase = EtcdCluterCreating, ServiceName = [], Members = []\<rparr>"
  "Status_field importedCluster =
     \<lparr>Phase = EtcdClusterRunning, ServiceName = [],
      Members = [''demo-etcd-0'', ''demo-etcd-1'', ''demo-etcd-2'']\<rparr>"
  "sint (Size (Spec exampleCluster)) = 3"
  "sint (Size (Spec creatingCluster)) = 3"
  "sint (Size (Spec importedCluster)) = 3"
  "map_of (Annotations exampleCluster) AnnoImportedURI = None"
  "map_of (Annotations importedCluster) AnnoImportedURI =
     Some ''https://demo-etcd.kstone.svc.cluster.local:2379''"
  by (simp_all add: exampleCluster_def creatingCluster_def importedCluster_def
        AnnoImportedURI_def)

theorem Status_hysteresis_witness:
  "Status (providerWith [''e0''] probeTimeout ([], EtcdClusterRunning)) ''extClientURL''
     exampleCluster () =
     (\<lparr>Phase = EtcdClusterUnknown, ServiceName = [],
       Members = [''demo-etcd-0'', ''demo-etcd-1'', ''demo-etcd-2'']\<rparr>,
      Some (errorString ''context deadline exceeded''))
   \<and> Status (providerWith [''e0''] probeTimeout ([], EtcdClusterRunning)) ''extClientURL''
     creatingCluster () =
     (\<lparr>Phase = EtcdCluterCreating, ServiceName = [], Members = []\<rparr>,
      Some (errorString ''context deadline exceeded''))
   \<and> Status (providerWith [''e0''] probeThree ([''s0'', ''s1'', ''s2''], EtcdClusterUnknown))
     ''extClientURL'' exampleCluster () =
     (\<lparr>Phase = EtcdClusterUnknown, ServiceName = [], Members = [''s0'', ''s1'', ''s2'']\<rparr>, None)
   \<and> Status (providerWith [''e0''] probeThree ([''s0'', ''s1'', ''s2''], EtcdClusterUnknown))
     ''extClientURL'' creatingCluster () =
     (\<lparr>Phase = EtcdCluterCreating, ServiceName = [], Members = [''s0'', ''s1'', ''s2'']\<rparr>, None)
   \<and> Status (providerWith [''e0''] probeThree ([''s0'', ''s1'', ''s2''], EtcdClusterRunning))
     ''extClientURL'' creatingCluster () =
     (\<lparr>Phase = EtcdClusterRunning, ServiceName = [], Members = [''s0'', ''s1'', ''s2'']\<rparr>, None)"
proof (intro conjI)
  note ev = providerWith_sel example_status probeTimeout_def probeThree_def
  show "Status (providerWith [''e0''] probeTimeout ([], EtcdClusterRunning)) ''extClientURL''
     exampleCluster () =
     (\<lparr>Phase = EtcdClusterUnknown, ServiceName = [],
       Members = [''demo-etcd-0'', ''demo-etcd-1'', ''demo-etcd-2'']\<rparr>,
      Some (errorString ''context deadline exceeded''))"
    using Status_hysteresis [where cp = "providerWith [''e0''] probeTimeout ([], EtcdClusterRunning)"
        and c = exampleCluster and eps = "[''e0'']" and prev = "Status_field exampleCluster"
        and key = "''extClientURL''" and tlsConfig = "()" and members = "[]"
        and err = "Some (errorString ''context deadline exceeded'')"
        and ms = "[]" and phase = EtcdClusterRunning]
    by (simp add: ev)
  show "Status (providerWith [''e0''] probeTimeout ([], EtcdClusterRunning)) ''extClientURL''
     creatingCluster () =
     (\<lparr>Phase = EtcdCluterCreating, ServiceName = [], Members = []\<rparr>,
      Some (errorString ''context deadline exceeded''))"
    using Status_hysteresis [where cp = "providerWith [''e0''] probeTimeout ([], EtcdClusterRunning)"
        and c = creatingCluster and eps = "[''e0'']" and prev = "Status_field creatingCluster"
        and key = "''extClientURL''" and tlsConfig = "()" and members = "[]"
        and err = "Some (errorString ''context deadline exceeded'')"
        and ms = "[]" and phase = EtcdClusterRunning]
    by (simp add: ev)
  show "Status (providerWith [''e0''] probeThree ([''s0'', ''s1'', ''s2''], EtcdClusterUnknown))
     ''extClientURL'' exampleCluster () =
     (\<lparr>Phase = EtcdClusterUnknown, ServiceName = [], Members = [''s0'', ''s1'', ''s2'']\<rparr>, None)"
    using Status_hysteresis [where
        cp = "providerWith [''e0''] probeThree ([''s0'', ''s1'', ''s2''], EtcdClusterUnknown)"
        and c = exampleCluster and eps = "[''e0'']" and prev = "Status_field exampleCluster"
        and key = "''extClientURL''" and tlsConfig = "()" and members = "[''m0'', ''m1'', ''m2'']"
        and err = None and ms = "[''s0'', ''s1'', ''s2'']" and phase = EtcdClusterUnknown]
    by (simp add: ev)
  show "Status (providerWith [''e0''] probeThree ([''s0'', ''s1'', ''s2''], EtcdClusterUnknown))
     ''extClientURL'' creatingCluster () =
     (\<lparr>Phase = EtcdCluterCreating, ServiceName = [], Members = [''s0'', ''s1'', ''s2'']\<rparr>, None)"
    using Status_hysteresis [where
        cp = "providerWith [''e0''] probeThree ([''s0'', ''s1'', ''s2''], EtcdClusterUnknown)"
        and c = creatingCluster and eps = "[''e0'']" and prev = "Status_field creatingCluster"
        and key = "''extClientURL''" and tlsConfig = "()" and members = "[''m0'', ''m1'', ''m2'']"
        and err = None and ms = "[''s0'', ''s1'', ''s2'']" and phase = EtcdClusterUnknown]
    by (simp add: ev)
  show "Status (providerWith [''e0''] probeThree ([''s0'', ''s1'', ''s2''], EtcdClusterRunning))
     ''extClientURL'' creatingCluster () =
     (\<lparr>Phase = EtcdClusterRunning, ServiceName = [], Members = [''s0'', ''s1'', ''s2'']\<rparr>, None)"
    using Status_hysteresis [where
        cp = "providerWith [''e0''] probeThree ([''s0'', ''s1'', ''s2''], EtcdClusterRunning)"
        and c = creatingCluster and eps = "[''e0'']" and prev = "Status_field creatingCluster"
        and key = "''extClientURL''" and tlsConfig = "()" and members = "[''m0'', ''m1'', ''m2'']"
        and err = None and ms = "[''s0'', ''s1'', ''s2'']" and phase = EtcdClusterRunning]
    by (simp add: ev)
qed

theorem Status_creating_without_endpoint_witness:
  "Status (providerWith [] probeTimeout ([], EtcdClusterRunning)) ''extClientURL''
     exampleCluster () =
     (\<lparr>Phase = EtcdCluterCreating, ServiceName = [],
       Members = [''demo-etcd-0'', ''demo-etcd-1'', ''demo-etcd-2'']\<rparr>, None)
   \<and> Status (providerWith [] probeThree ([''s0'', ''s1'', ''s2''], EtcdClusterRunning))
     ''extClientURL'' exampleCluster () =
     (\<lparr>Phase = EtcdCluterCreating, ServiceName = [],
       Members = [''demo-etcd-0'', ''demo-etcd-1'', ''demo-etcd-2'']\<rparr>, None)
   \<and> Status (providerWith [] probeThree ([''s0'', ''s1'', ''s2''], EtcdClusterRunning))
     ''extClientURL'' importedCluster () =
     Status ((providerWith [] probeThree ([''s0'', ''s1'', ''s2''], EtcdClusterRunning))
               \<lparr>GetStorageMemberEndpoints :=
                  (\<lambda>_. [''https://demo-etcd.kstone.svc.cluster.local:2379''])\<rparr>)
       ''extClientURL''
       (importedCluster\<lparr>Status_field := (Status_field importedCluster)
          \<lparr>ServiceName := ''https://demo-etcd.kstone.svc.cluster.local:2379''\<rparr>\<rparr>) ()
   \<and> Members (fst (Status (providerWith [''e0''] probeTimeout ([], EtcdClusterRunning))
        ''extClientURL'' exampleCluster ())) = [''demo-etcd-0'', ''demo-etcd-1'', ''demo-etcd-2'']"
proof (intro conjI)
  note ev = providerWith_sel example_status probeTimeout_def probeThree_def
  show "Status (providerWith [] probeTimeout ([], EtcdClusterRunning)) ''extClientURL''
     exampleCluster () =
     (\<lparr>Phase = EtcdCluterCreating, ServiceName = [],
       Members = [''demo-etcd-0'', ''demo-etcd-1'', ''demo-etcd-2'']\<rparr>, None)"
    using Status_creating_without_endpoint [where
        cp = "providerWith [] probeTimeout ([], EtcdClusterRunning)" and c = exampleCluster
        and key = "''extClientURL''" and tlsConfig = "()"]
    by (simp add: ev)
  show "Status (providerWith [] probeThree ([''s0'', ''s1'', ''s2''], EtcdClusterRunning))
     ''extClientURL'' exampleCluster () =
     (\<lparr>Phase = EtcdCluterCreating, ServiceName = [],
       Members = [''demo-etcd-0'', ''demo-etcd-1'', ''demo-etcd-2'']\<rparr>, None)"
    using Status_creating_without_endpoint [where
        cp = "providerWith [] probeThree ([''s0'', ''s1'', ''s2''], EtcdClusterRunning)"
        and c = exampleCluster and key = "''extClientURL''" and tlsConfig = "()"]
    by (simp add: ev)
  show "Status (providerWith [] probeThree ([''s0'', ''s1'', ''s2''], EtcdClusterRunning))
     ''extClientURL'' importedCluster () =
     Status ((providerWith [] probeThree ([''s0'', ''s1'', ''s2''], EtcdClusterRunning))
               \<lparr>GetStorageMemberEndpoints :=
                  (\<lambda>_. [''https://demo-etcd.kstone.svc.cluster.local:2379''])\<rparr>)
       ''extClientURL''
       (importedCluster\<lparr>Status_field := (Status_field importedCluster)
          \<lparr>ServiceName := ''https://demo-etcd.kstone.svc.cluster.local:2379''\<rparr>\<rparr>) ()"
    using Status_creating_without_endpoint [where
        cp = "providerWith [] probeThree ([''s0'', ''s1'', ''s2''], EtcdClusterRunning)"
        and c = importedCluster and key = "''extClientURL''" and tlsConfig = "()"
        and addr = "''https://demo-etcd.kstone.svc.cluster.local:2379''"]
      providerWith_sel(1) example_status(8)
    by blast
  show "Members (fst (Status (providerWith [''e0''] probeTimeout ([], EtcdClusterRunning))
        ''extClientURL'' exampleCluster ())) = [''demo-etcd-0'', ''demo-etcd-1'', ''demo-etcd-2'']"
    using Status_creating_without_endpoint [where
        cp = "providerWith [''e0''] probeTimeout ([], EtcdClusterRunning)" and c = exampleCluster
        and key = "''extClientURL''" and tlsConfig = "()"]
    by (simp add: ev)
qed

theorem Status_imported_counterexample:
  "GetStorageMemberEndpoints (providerWith [] probeTimeout ([], EtcdClusterRunning))
     importedCluster = []
   \<and> Status (providerWith [] probeTimeout ([], EtcdClusterRunning)) ''extClientURL''
     importedCluster () =
     (\<lparr>Phase = EtcdClusterUnknown,
       ServiceName = ''https://demo-etcd.kstone.svc.cluster.local:2379'',
       Members = [''demo-etcd-0'', ''demo-etcd-1'', ''demo-etcd-2'']\<rparr>,
      Some (errorString ''context deadline exceeded''))
   \<and> GetStorageMemberEndpoints (providerWith [''e0''] probeTimeout ([], EtcdClusterRunning))
     exampleCluster \<noteq> []
   \<and> Status (providerWith [''e0''] probeTimeout ([], EtcdClusterRunning)) ''extClientURL''
     exampleCluster () =
     (\<lparr>Phase = EtcdClusterUnknown, ServiceName = [],
       Members = [''demo-etcd-0'', ''demo-etcd-1'', ''demo-etcd-2'']\<rparr>,
      Some (errorString ''context deadline exceeded''))"
  by (simp add: Status_def Let_def providerWith_sel example_status probeTimeout_def)

section \<open>Create\<close>

text \<open>
  C5. Once the owner reference is set, Create sends exactly one create request, for
  the document whose \<open>spec\<close> is the synthesized one. An answer without error and the
  answer already-exists both give no error; any other error of the request is returned
  as it is.
\<close>

theorem Create_tolerates_already_exists:
  assumes "SetOwnerReference c (JMap
            [(''apiVersion'', JStr ''etcd.tkestack.io/v1alpha1''),
             (''kind'', JStr ''EtcdCluster''),
             (''metadata'', JMap
                [(''name'', JStr (Name c)),
                 (''namespace'', JStr (Namespace c))]),
             (''spec'', generateEtcdSpec js c)]) = Inr req"
  shows
  "snd (Create js SetOwnerReference cl c) = [CreateReq (Namespace c) req]
   \<and> (\<forall>r. Create_resp cl (Namespace c) req = Inr r \<longrightarrow>
          fst (Create js SetOwnerReference cl c) = None)
   \<and> (\<forall>err. Create_resp cl (Namespace c) req = Inl err \<and> IsAlreadyExists err \<longrightarrow>
          fst (Create js SetOwnerReference cl c) = None)
   \<and> (\<forall>err. Create_resp cl (Namespace c) req = Inl err \<and> \<not> IsAlreadyExists err \<longrightarrow>
          fst (Create js SetOwnerReference cl c) = Some err)"
  using assms by (auto simp: Create_def Let_def split: sum.splits)

theorem Create_tolerates_already_exists_witness:
  "Create exampleJSON exampleSetOwner existsStore exampleCluster =
     (None, [CreateReq ''kstone'' (projr (exampleSetOwner exampleCluster (JMap
            [(''apiVersion'', JStr ''etcd.tkestack.io/v1alpha1''),
             (''kind'', JStr ''EtcdCluster''),
             (''metadata'', JMap [(''name'', JStr ''demo''), (''namespace'', JStr ''kstone'')]),
             (''spec'', generateEtcdSpec exampleJSON exampleCluster)])))])
   \<and> fst (Create exampleJSON exampleSetOwner (storeWith JNil) exampleCluster) = None
   \<and> fst (Create exampleJSON exampleSetOwner brokenStore exampleCluster) =
       Some (errorString ''connection refused'')
   \<and> length (snd (Create exampleJSON exampleSetOwner brokenStore exampleCluster)) = 1"
proof -
  let ?doc = "JMap
            [(''apiVersion'', JStr ''etcd.tkestack.io/v1alpha1''),
             (''kind'', JStr ''EtcdCluster''),
             (''metadata'', JMap
                [(''name'', JStr (Name exampleCluster)),
                 (''namespace'', JStr (Namespace exampleCluster))]),
             (''spec'', generateEtcdSpec exampleJSON exampleCluster)]"
  obtain req where r: "exampleSetOwner exampleCluster ?doc = Inr req"
    by (simp add: exampleSetOwner_def)
  have n: "Name exampleCluster = ''demo''" "Namespace exampleCluster = ''kstone''"
    by (simp_all add: exampleCluster_def)
  have e: "Create_resp existsStore ''kstone'' req =
             Inl (StatusError StatusReasonAlreadyExists
                    ''etcdclusters.etcd.tkestack.io demo already exists'')"
    by (simp add: existsStore_def)
  have s: "Create_resp (storeWith JNil) ''kstone'' req = Inr req"
    by (simp add: storeWith_def)
  have b: "Create_resp brokenStore ''kstone'' req = Inl (errorString ''connection refused'')"
    by (simp add: brokenStore_def)
  note t = Create_tolerates_already_exists [where SetOwnerReference = exampleSetOwner
      and c = exampleCluster and js = exampleJSON and req = req, OF r]
  have "fst (Create exampleJSON exampleSetOwner existsStore exampleCluster) = None"
    using t [where cl = existsStore] e by (simp add: n)
  moreover have "snd (Create exampleJSON exampleSetOwner existsStore exampleCluster) =
      [CreateReq ''kstone'' req]"
    using t [where cl = existsStore] by (simp add: n)
  moreover have "fst (Create exampleJSON exampleSetOwner (storeWith JNil) exampleCluster) = None"
    using t [where cl = "storeWith JNil"] s by (simp add: n)
  moreover have "fst (Create exampleJSON exampleSetOwner brokenStore exampleCluster) =
       Some (errorString ''connection refused'')"
    using t [where cl = brokenStore] b by (simp add: n)
  moreover have "length (snd (Create exampleJSON exampleSetOwner brokenStore exampleCluster)) = 1"
    using t [where cl = brokenStore] by simp
  ultimately show ?thesis using r by (simp add: n prod_eq_iff)
qed

section \<open>One-time initialisation\<close>

lemma Init_once: "once c \<Longrightarrow> Init newServer f c = (None, c)"
  by (simp add: Init_def)

lemma InitCalls_once:
  "once c \<Longrightarrow> InitCalls newServer fs c = (replicate (length fs) None, c)"
  by (induction fs) (simp_all add: Init_once)

text \<open>
  C9. When a call of \<open>Init\<close> returns an error, the guard is set by that call. Every
  later call, whatever the server \<open>Init\<close> would do at that moment, returns no error and
  leaves the feature provider as it is: the body does not run again and the error is
  not reported a second time.
\<close>

theorem Init_failure_not_retried:
  "fst (Init newServer serverInit c) = Some e \<longrightarrow>
     once (snd (Init newServer serverInit c))
     \<and> (\<forall>f. Init newServer f (snd (Init newServer serverInit c)) =
              (None, snd (Init newServer serverInit c)))
     \<and> (\<forall>fs. InitCalls newServer fs (snd (Init newServer serverInit c)) =
              (replicate (length fs) None, snd (Init newServer serverInit c)))"
proof
  assume "fst (Init newServer serverInit c) = Some e"
  then have "\<not> once c" by (auto simp: Init_def)
  then have "once (snd (Init newServer serverInit c))"
    by (simp add: Init_def split: prod.splits)
  then show "once (snd (Init newServer serverInit c))
     \<and> (\<forall>f. Init newServer f (snd (Init newServer serverInit c)) =
              (None, snd (Init newServer serverInit c)))
     \<and> (\<forall>fs. InitCalls newServer fs (snd (Init newServer serverInit c)) =
              (replicate (length fs) None, snd (Init newServer serverInit c)))"
    by (simp add: Init_once InitCalls_once)
qed

lemma exampleFeature_Init:
  "Init id failingInit exampleFeature =
     (Some (errorString ''dial tcp: i/o timeout''),
      \<lparr>name = ''request'', once = True, inspection = Some ''clientbuilder'',
       ctx = ''clientbuilder''\<rparr>)"
  by (simp add: Init_def exampleFeature_def failingInit_def)

theorem Init_failure_not_retried_witness:
  "fst (Init id failingInit exampleFeature) = Some (errorString ''dial tcp: i/o timeout'')
   \<and> InitCalls id [workingInit, failingInit, workingInit]
        \<lparr>name = ''request'', once = True, inspection = Some ''clientbuilder'',
         ctx = ''clientbuilder''\<rparr> =
      ([None, None, None],
       \<lparr>name = ''request'', once = True, inspection = Some ''clientbuilder'',
        ctx = ''clientbuilder''\<rparr>)"
proof -
  have f: "fst (Init id failingInit exampleFeature) = Some (errorString ''dial tcp: i/o timeout'')"
    by (simp add: exampleFeature_Init)
  from Init_failure_not_retried [of id failingInit exampleFeature
      "errorString ''dial tcp: i/o timeout''"] f
  have "InitCalls id [workingInit, failingInit, workingInit]
          (snd (Init id failingInit exampleFeature)) =
        (replicate (length [workingInit, failingInit, workingInit]) None,
         snd (Init id failingInit exampleFeature))"
    by blast
  then show ?thesis using f by (simp add: exampleFeature_Init numeral_3_eq_3)
qed

section \<open>Update\<close>

lemma updateEtcdSpec_readable:
  "map_of m ''spec'' = Some (JMap sp) \<Longrightarrow>
   updateEtcdSpec js c (JMap m) = (JMap (AList.update ''spec'' (generateEtcdSpec js c) m), None)"
  by (simp add: updateEtcdSpec_def NestedMap_def SetNestedField1_def Let_def)

lemma updateEtcdSpec_unreadable:
  assumes "\<nexists>m sp. etcd = JMap m \<and> map_of m ''spec'' = Some (JMap sp)"
  shows "updateEtcdSpec js c etcd = (etcd, Some (errorString ''get spec error''))"
proof (cases etcd)
  case (JMap m)
  show ?thesis
  proof (cases "map_of m ''spec''")
    case None
    with JMap show ?thesis by (simp add: updateEtcdSpec_def NestedMap_def Let_def)
  next
    case (Some v)
    with JMap assms have "\<nexists>sp. v = JMap sp" by simp
    with JMap Some show ?thesis
      by (cases v) (simp_all add: updateEtcdSpec_def NestedMap_def Let_def)
  qed
qed (simp_all add: updateEtcdSpec_def NestedMap_def Let_def)

text \<open>
  C8. With the observed document fetched: when it is not a map that holds a map under
  \<open>spec\<close> (the key is missing, its value is nil, or it has another shape), Update
  returns the error \<open>get spec error\<close> and has sent nothing but the fetch. Otherwise it
  sends one update request for the fetched document in which the value of \<open>spec\<close> is
  the synthesized spec, whole, and every other key is as fetched; the error of that
  request, if any, is returned.
\<close>

theorem Update_replaces_spec:
  assumes "Get_resp cl (Namespace c) (Name c) = Inr etcd"
  shows
  "((\<nexists>m sp. etcd = JMap m \<and> map_of m ''spec'' = Some (JMap sp)) \<longrightarrow>
      Update js cl c =
        (Some (errorString ''get spec error''), [GetReq (Namespace c) (Name c)]))
   \<and> (\<forall>m sp. etcd = JMap m \<and> map_of m ''spec'' = Some (JMap sp) \<longrightarrow>
        (\<exists>sent.
           snd (Update js cl c) =
             [GetReq (Namespace c) (Name c), UpdateReq (Namespace c) (JMap sent)]
           \<and> map_of sent ''spec'' = Some (generateEtcdSpec js c)
           \<and> (\<forall>k. k \<noteq> ''spec'' \<longrightarrow> map_of sent k = map_of m k)
           \<and> fst (Update js cl c) =
               (case Update_resp cl (Namespace c) (JMap sent) of
                  Inl updateErr \<Rightarrow> Some updateErr | Inr _ \<Rightarrow> None)))"
proof (intro conjI impI allI)
  assume "\<nexists>m sp. etcd = JMap m \<and> map_of m ''spec'' = Some (JMap sp)"
  then have "updateEtcdSpec js c etcd = (etcd, Some (errorString ''get spec error''))"
    by (rule updateEtcdSpec_unreadable)
  with assms show "Update js cl c =
        (Some (errorString ''get spec error''), [GetReq (Namespace c) (Name c)])"
    by (simp add: Update_def)
next
  fix m sp
  assume a: "etcd = JMap m \<and> map_of m ''spec'' = Some (JMap sp)"
  let ?sent = "AList.update ''spec'' (generateEtcdSpec js c) m"
  from a have u: "updateEtcdSpec js c etcd = (JMap ?sent, None)"
    by (simp add: updateEtcdSpec_readable)
  have "snd (Update js cl c) =
          [GetReq (Namespace c) (Name c), UpdateReq (Namespace c) (JMap ?sent)]"
    using assms u by (simp add: Update_def split: sum.splits)
  moreover have "map_of ?sent ''spec'' = Some (generateEtcdSpec js c)"
    by (simp add: update_conv')
  moreover have "\<forall>k. k \<noteq> ''spec'' \<longrightarrow> map_of ?sent k = map_of m k"
    by (simp add: update_conv')
  moreover have "fst (Update js cl c) =
               (case Update_resp cl (Namespace c) (JMap ?sent) of
                  Inl updateErr \<Rightarrow> Some updateErr | Inr _ \<Rightarrow> None)"
    using assms u by (simp add: Update_def split: sum.splits)
  ultimately show "\<exists>sent.
           snd (Update js cl c) =
             [GetReq (Namespace c) (Name c), UpdateReq (Namespace c) (JMap sent)]
           \<and> map_of sent ''spec'' = Some (generateEtcdSpec js c)
           \<and> (\<forall>k. k \<noteq> ''spec'' \<longrightarrow> map_of sent k = map_of m k)
           \<and> fst (Update js cl c) =
               (case Update_resp cl (Namespace c) (JMap sent) of
                  Inl updateErr \<Rightarrow> Some updateErr | Inr _ \<Rightarrow> None)"
    by blast
qed

theorem Update_replaces_spec_witness:
  "Update exampleJSON (storeWith (JMap [(''kind'', JStr ''EtcdCluster'')])) tlsCluster =
     (Some (errorString ''get spec error''), [GetReq ''kstone'' ''demo''])
   \<and> Update exampleJSON (storeWith (JMap [(''spec'', JNil)])) tlsCluster =
     (Some (errorString ''get spec error''), [GetReq ''kstone'' ''demo''])
   \<and> Update exampleJSON (storeWith (JMap [(''spec'', JStr ''3 members'')])) tlsCluster =
     (Some (errorString ''get spec error''), [GetReq ''kstone'' ''demo''])
   \<and> Update exampleJSON
       (storeWith (JMap [(''kind'', JStr ''EtcdCluster''), (''spec'', JMap [(''size'', JInt 1)])]))
       tlsCluster =
     (None, [GetReq ''kstone'' ''demo'',
             UpdateReq ''kstone'' (JMap [(''kind'', JStr ''EtcdCluster''),
                                        (''spec'', generateEtcdSpec exampleJSON tlsCluster)])])"
proof (intro conjI)
  have n: "Name tlsCluster = ''demo''" "Namespace tlsCluster = ''kstone''"
    by (simp_all add: tlsCluster_def exampleCluster_def)
  show "Update exampleJSON (storeWith (JMap [(''kind'', JStr ''EtcdCluster'')])) tlsCluster =
     (Some (errorString ''get spec error''), [GetReq ''kstone'' ''demo''])"
    using Update_replaces_spec [where cl = "storeWith (JMap [(''kind'', JStr ''EtcdCluster'')])" and c = tlsCluster
        and etcd = "JMap [(''kind'', JStr ''EtcdCluster'')]" and js = exampleJSON, OF storeWith_Get]
    by (simp add: n)
  show "Update exampleJSON (storeWith (JMap [(''spec'', JNil)])) tlsCluster =
     (Some (errorString ''get spec error''), [GetReq ''kstone'' ''demo''])"
    using Update_replaces_spec [where cl = "storeWith (JMap [(''spec'', JNil)])" and c = tlsCluster
        and etcd = "JMap [(''spec'', JNil)]" and js = exampleJSON, OF storeWith_Get]
    by (simp add: n)
  show "Update exampleJSON (storeWith (JMap [(''spec'', JStr ''3 members'')])) tlsCluster =
     (Some (errorString ''get spec error''), [GetReq ''kstone'' ''demo''])"
    using Update_replaces_spec [where cl = "storeWith (JMap [(''spec'', JStr ''3 members'')])" and c = tlsCluster
        and etcd = "JMap [(''spec'', JStr ''3 members'')]" and js = exampleJSON, OF storeWith_Get]
    by (simp add: n)
  let ?m = "[(''kind'', JStr ''EtcdCluster''), (''spec'', JMap [(''size'', JInt 1)])]"
  from Update_replaces_spec [where cl = "storeWith (JMap ?m)" and c = tlsCluster
        and etcd = "JMap ?m" and js = exampleJSON, OF storeWith_Get]
  obtain sent where s:
    "snd (Update exampleJSON (storeWith (JMap ?m)) tlsCluster) =
       [GetReq ''kstone'' ''demo'', UpdateReq ''kstone'' (JMap sent)]"
    "fst (Update exampleJSON (storeWith (JMap ?m)) tlsCluster) =
       (case Update_resp (storeWith (JMap ?m)) ''kstone'' (JMap sent) of
          Inl updateErr \<Rightarrow> Some updateErr | Inr _ \<Rightarrow> None)"
    by (auto simp: n)
  have "snd (Update exampleJSON (storeWith (JMap ?m)) tlsCluster) =
       [GetReq ''kstone'' ''demo'',
        UpdateReq ''kstone'' (JMap [(''kind'', JStr ''EtcdCluster''),
                                   (''spec'', generateEtcdSpec exampleJSON tlsCluster)])]"
    by (simp add: Update_def storeWith_def n updateEtcdSpec_def NestedMap_def
          SetNestedField1_def Let_def)
  moreover have "fst (Update exampleJSON (storeWith (JMap ?m)) tlsCluster) = None"
    using s(2) by (simp add: storeWith_def)
  ultimately show "Update exampleJSON (storeWith (JMap ?m)) tlsCluster =
     (None, [GetReq ''kstone'' ''demo'',
             UpdateReq ''kstone'' (JMap [(''kind'', JStr ''EtcdCluster''),
                                        (''spec'', generateEtcdSpec exampleJSON tlsCluster)])])"
    by (simp add: prod_eq_iff)
qed

end
